theory Spec2Isabelle
  imports Main
begin

section \<open>Data model\<close>

text \<open>
  Modelled from the spec: the type \<open>Run\<close> of \<open>hooks/types\<close>, whose declaration is
  not among the sources. The spec gives
  \<open>{ id, message, status, createdAt, confirmedBy?: { name }, plan?: { logs } }\<close>; the
  name of the confirming user may itself be absent.
\<close>

record user =
  name :: "string option"

record plan =
  logs :: string

record run =
  run_id :: string
  message :: string
  status :: string
  createdAt :: string
  confirmedBy :: "user option"
  plan :: "plan option"

text \<open>A JavaScript \<open>Error\<close> object: always truthy when present.\<close>

record js_error =
  err_name :: string
  err_message :: string

text \<open>
  What a call of a callback hands back to its caller: \<open>undefined\<close>, or a promise
  (identified by a number).
\<close>

datatype js_value = JSUndefined | JSPromise nat

text \<open>
  A function object. \<open>ref\<close> is its identity (what \<open>Object.is\<close> compares),
  \<open>returns\<close> is what a call of it returns.
\<close>

record callback =
  ref :: nat
  returns :: js_value

text \<open>
  The value \<open>useRuns(organization, workspaceName)\<close> returns at one render:
  \<open>{ data, error, isLoading, refetch }\<close>. \<open>None\<close> is \<open>undefined\<close>.
\<close>

record fetch_state =
  data :: "run list option"
  error :: "js_error option"
  isLoading :: bool
  refetch :: callback

text \<open>The component's \<open>Props\<close>; \<open>hideDescription\<close> is optional.\<close>

record props =
  organization :: string
  workspaceName :: string
  hideDescription :: "bool option"

section \<open>Elements\<close>

text \<open>The props the source gives to the \<open>Grid\<close> elements.\<close>

record grid_props =
  container :: bool
  item :: bool
  spacing :: "nat option"
  direction :: "string option"
  justifyContent :: "string option"
  alignItems :: "string option"

definition grid_item :: grid_props where
  "grid_item =
     \<lparr>container = False, item = True, spacing = None, direction = None,
      justifyContent = None, alignItems = None\<rparr>"

definition grid_column :: grid_props where
  "grid_column =
     \<lparr>container = True, item = False, spacing = Some 2, direction = Some ''column'',
      justifyContent = None, alignItems = None\<rparr>"

definition grid_row :: grid_props where
  "grid_row =
     \<lparr>container = True, item = False, spacing = Some 0, direction = Some ''row'',
      justifyContent = Some ''space-between'', alignItems = Some ''center''\<rparr>"

text \<open>
  The element tree a render returns. \<open>Typography\<close> carries its variant,
  \<open>IconButton\<close> its \<open>onClick\<close> handler and its \<open>aria-label\<close>,
  \<open>ResponseErrorPanel\<close> its \<open>error\<close>, \<open>TerraformLatestRunCard\<close> its
  \<open>run\<close> and \<open>workspace\<close>.
\<close>

datatype element =
    Text string
  | Grid grid_props "element list"
  | Typography string "element list"
  | IconButton callback string "element list"
  | RefreshIcon
  | ResponseErrorPanel js_error
  | TerraformLatestRunCard "run option" string

section \<open>The render function\<close>

datatype js_exn = TypeError

text \<open>An object or an array is truthy, \<open>undefined\<close> is not.\<close>

definition truthy :: "'a option \<Rightarrow> bool" where
  "truthy v = (v \<noteq> None)"

text \<open>
  \<open>d[0]\<close>: reading a property of \<open>undefined\<close> throws a \<open>TypeError\<close>; reading
  index 0 of an empty array gives \<open>undefined\<close>.
\<close>

definition index0 :: "'a list option \<Rightarrow> js_exn + 'a option" where
  "index0 d =
     (case d of
        None \<Rightarrow> Inl TypeError
      | Some [] \<Rightarrow> Inr None
      | Some (x # _) \<Rightarrow> Inr (Some x))"

text \<open>\<open>data ? data[0] : undefined\<close> (lines 34 and 70).\<close>

definition card_run :: "fetch_state \<Rightarrow> js_exn + run option" where
  "card_run fs = (if truthy (data fs) then index0 (data fs) else Inr None)"

text \<open>The default of the destructured prop: \<open>hideDescription = false\<close>.\<close>

definition hide :: "props \<Rightarrow> bool" where
  "hide p = (case hideDescription p of None \<Rightarrow> False | Some b \<Rightarrow> b)"

definition title :: element where
  "title = Typography ''h5'' [Text ''Terraform'']"

definition refresh :: "callback \<Rightarrow> element" where
  "refresh cb = IconButton cb ''Refresh'' [RefreshIcon]"

text \<open>
  The children of the \<open>body2\<close> typography: two pieces of JSX text around
  \<open>{workspaceName}\<close>.
\<close>

definition description :: "string \<Rightarrow> element" where
  "description w =
     Typography ''body2''
       [Text ''This contains some useful information around the terraform workspace \"'',
        Text w,
        Text ''\".'']"

text \<open>Lines 43 to 78: the tree of the full view around a card.\<close>

definition full_view :: "callback \<Rightarrow> string \<Rightarrow> element \<Rightarrow> element" where
  "full_view cb w c =
     Grid grid_column
       [Grid grid_item
          [Grid grid_row
             [Grid grid_item [title],
              Grid grid_item [refresh cb]],
           Grid grid_item [description w]],
        Grid grid_item [c]]"

text \<open>
  Lines 28 to 78 of \<open>TerraformLatestRun\<close>: what a render returns, for the fetch state
  \<open>fs\<close> that \<open>useRuns\<close> returned to it. \<open>Inl\<close> is an exception thrown while
  rendering.
\<close>

definition TerraformLatestRun :: "fetch_state \<Rightarrow> props \<Rightarrow> js_exn + element" where
  "TerraformLatestRun fs p =
     (case error fs of
        Some e \<Rightarrow> Inr (ResponseErrorPanel e)
      | None \<Rightarrow>
          if hide p then
            (case card_run fs of
               Inl x \<Rightarrow> Inl x
             | Inr r \<Rightarrow> Inr (TerraformLatestRunCard r (workspaceName p)))
          else
            (case card_run fs of
               Inl x \<Rightarrow> Inl x
             | Inr r \<Rightarrow>
                 Inr (full_view (refetch fs) (workspaceName p)
                        (TerraformLatestRunCard r (workspaceName p)))))"

section \<open>Looking into a rendered tree\<close>

text \<open>An element and all the elements below it, in document order.\<close>

fun elements :: "element \<Rightarrow> element list" where
  "elements (Grid g cs) = Grid g cs # concat (map elements cs)"
| "elements (Typography v cs) = Typography v cs # concat (map elements cs)"
| "elements (IconButton cb l cs) = IconButton cb l cs # concat (map elements cs)"
| "elements e = [e]"

text \<open>The handlers of the controls labelled \<open>Refresh\<close>.\<close>

fun refresh_handler :: "element \<Rightarrow> callback option" where
  "refresh_handler (IconButton cb l cs) = (if l = ''Refresh'' then Some cb else None)"
| "refresh_handler e = None"

definition refresh_controls :: "element \<Rightarrow> callback list" where
  "refresh_controls el = List.map_filter refresh_handler (elements el)"

text \<open>The props of the run-summary cards.\<close>

fun card_props :: "element \<Rightarrow> (run option \<times> string) option" where
  "card_props (TerraformLatestRunCard r w) = Some (r, w)"
| "card_props e = None"

definition cards :: "element \<Rightarrow> (run option \<times> string) list" where
  "cards el = List.map_filter card_props (elements el)"

text \<open>The typography elements: the title and the description are the only ones.\<close>

fun is_typography :: "element \<Rightarrow> bool" where
  "is_typography (Typography v cs) = True"
| "is_typography e = False"

definition typographies :: "element \<Rightarrow> element list" where
  "typographies el = filter is_typography (elements el)"

section \<open>The effect and the refresh control\<close>

text \<open>
  An effect as \<open>useEffect\<close> registers it: the callback its body calls, and its
  dependency array, compared by identity.
\<close>

record effect =
  body_calls :: callback
  deps :: "nat list"

text \<open>
  Lines 24 to 26: \<open>useEffect(() => { refetch(); }, [refetch])\<close>. The hook is called
  at every render, before any branch on the fetch state.
\<close>

definition TerraformLatestRun_effect :: "fetch_state \<Rightarrow> effect" where
  "TerraformLatestRun_effect fs =
     \<lparr>body_calls = refetch fs, deps = [ref (refetch fs)]\<rparr>"

text \<open>
  A mounted component: the dependency array of the effect that ran last (\<open>None\<close>
  before the mount), what that effect returned to React as its cleanup, and the log of
  the callbacks invoked so far, by identity.
\<close>

record mounted =
  last_deps :: "nat list option"
  cleanup :: js_value
  invoked :: "nat list"

definition unmounted :: mounted where
  "unmounted = \<lparr>last_deps = None, cleanup = JSUndefined, invoked = []\<rparr>"

text \<open>A call of a callback: it is logged, and its result goes to the caller.\<close>

definition call :: "callback \<Rightarrow> nat list \<Rightarrow> js_value \<times> nat list" where
  "call cb log = (returns cb, log @ [ref cb])"

text \<open>
  The body \<open>{ refetch(); }\<close>: a block with one expression statement. The result of
  the call is dropped and the body returns \<open>undefined\<close>.
\<close>

definition run_effect :: "effect \<Rightarrow> nat list \<Rightarrow> js_value \<times> nat list" where
  "run_effect eff log = (case call (body_calls eff) log of (v, log') \<Rightarrow> (JSUndefined, log'))"

text \<open>
  React after a commit: the effect runs on the mount and when its dependency array
  differs from the one of the last run.
\<close>

definition commit_effect :: "effect \<Rightarrow> mounted \<Rightarrow> mounted" where
  "commit_effect eff inst =
     (if last_deps inst = Some (deps eff) then inst
      else (case run_effect eff (invoked inst) of
              (c, log) \<Rightarrow> \<lparr>last_deps = Some (deps eff), cleanup = c, invoked = log\<rparr>))"

text \<open>
  One render of the component and its commit. A render that throws commits nothing.
\<close>

definition render :: "fetch_state \<Rightarrow> props \<Rightarrow> mounted \<Rightarrow> (js_exn + element) \<times> mounted" where
  "render fs p inst =
     (case TerraformLatestRun fs p of
        Inl x \<Rightarrow> (Inl x, inst)
      | Inr el \<Rightarrow> (Inr el, commit_effect (TerraformLatestRun_effect fs) inst))"

text \<open>A sequence of renders, each with the fetch state and the props of its time.\<close>

fun renders :: "(fetch_state \<times> props) list \<Rightarrow> mounted \<Rightarrow> mounted" where
  "renders [] inst = inst"
| "renders ((fs, p) # rs) inst = renders rs (snd (render fs p inst))"

text \<open>
  The spec's words, for comparison: of the \<open>refetch\<close> references of a sequence of
  renders, the first one (the mount) and every one that differs from its predecessor.
  \<open>prev\<close> is the dependency array before the sequence, \<open>None\<close> before the mount.
\<close>

fun changes :: "nat list option \<Rightarrow> nat list \<Rightarrow> nat list" where
  "changes prev [] = []"
| "changes prev (r # rs) =
     (if prev = Some [r] then changes prev rs else r # changes (Some [r]) rs)"

text \<open>
  An activation of the refresh control of a rendered tree: \<open>onClick={refetch}\<close> calls
  the handler and drops its result. \<open>None\<close> when the tree has no such control.
\<close>

definition activate :: "element \<Rightarrow> mounted \<Rightarrow> mounted option" where
  "activate el inst =
     (case refresh_controls el of
        [] \<Rightarrow> None
      | cb # _ \<Rightarrow> Some (inst\<lparr>invoked := snd (call cb (invoked inst))\<rparr>))"

fun activations :: "nat \<Rightarrow> element \<Rightarrow> mounted \<Rightarrow> mounted option" where
  "activations 0 el inst = Some inst"
| "activations (Suc n) el inst =
     (case activate el inst of None \<Rightarrow> None | Some inst' \<Rightarrow> activations n el inst')"

section \<open>The text on the screen\<close>

text \<open>
  Modelled from the spec: the component \<open>TerraformLatestRunCard\<close>, whose source is not
  among the sources. The spec (4.1, step 4): if the parent signals loading, "Getting data
  for workspace W"; else if no run is provided, "No runs for W"; else "Latest run for W"
  with the message, the status, the formatted creation time and, under a "User" label,
  the confirming user's name, "Unknown" when the confirming user or its name is absent.
  \<open>fmt\<close> formats the creation time.
\<close>

definition user_name :: "run \<Rightarrow> string" where
  "user_name r =
     (case confirmedBy r of
        None \<Rightarrow> ''Unknown''
      | Some u \<Rightarrow> (case name u of None \<Rightarrow> ''Unknown'' | Some n \<Rightarrow> n))"

definition TerraformLatestRunCard_view ::
    "(string \<Rightarrow> string) \<Rightarrow> bool \<Rightarrow> run option \<Rightarrow> string \<Rightarrow> string list" where
  "TerraformLatestRunCard_view fmt loading r w =
     (if loading then [''Getting data for workspace '' @ w]
      else (case r of
              None \<Rightarrow> [''No runs for '' @ w]
            | Some x \<Rightarrow>
                [''Latest run for '' @ w, message x, status x, fmt (createdAt x),
                 ''User'', user_name x]))"

text \<open>
  The texts a tree shows, one per element that holds text. The two leaves that are
  components of their own are given as functions: \<open>cardf\<close> for the run-summary
  card, \<open>panelf\<close> for the error panel. An \<open>aria-label\<close> is not text.
\<close>

fun shown ::
    "(run option \<Rightarrow> string \<Rightarrow> string list) \<Rightarrow> (js_error \<Rightarrow> string list) \<Rightarrow> element \<Rightarrow> string list"
where
  "shown cardf panelf (Text s) = [s]"
| "shown cardf panelf (Grid g cs) = concat (map (shown cardf panelf) cs)"
| "shown cardf panelf (Typography v cs) = [concat (concat (map (shown cardf panelf) cs))]"
| "shown cardf panelf (IconButton cb l cs) = concat (map (shown cardf panelf) cs)"
| "shown cardf panelf RefreshIcon = []"
| "shown cardf panelf (ResponseErrorPanel e) = panelf e"
| "shown cardf panelf (TerraformLatestRunCard r w) = cardf r w"

text \<open>The sentence of the description, as one text.\<close>

definition description_text :: "string \<Rightarrow> string" where
  "description_text w =
     ''This contains some useful information around the terraform workspace \"'' @ w @ ''\".''"

section \<open>The inputs of the test suite\<close>

text \<open>
  The values the tests feed to the component. \<open>refetchMock\<close> is
  \<open>jest.fn(() => { })\<close>; \<open>otherRefetch\<close> is a second function object.
  \<open>createdAt\<close> of \<open>testDataValid\<close> is the time of the test run in the test
  file; a fixed time stands for it.
\<close>

definition refetchMock :: callback where
  "refetchMock = \<lparr>ref = 0, returns = JSUndefined\<rparr>"

definition otherRefetch :: callback where
  "otherRefetch = \<lparr>ref = 1, returns = JSPromise 0\<rparr>"

definition testDataUndefinedName :: run where
  "testDataUndefinedName =
     \<lparr>run_id = ''123'', message = ''this is a text message'', status = ''done'',
      createdAt = ''2023-05-24T10:23:40.172Z'', confirmedBy = None,
      plan = Some \<lparr>logs = ''some text''\<rparr>\<rparr>"

definition testDataValid :: run where
  "testDataValid =
     \<lparr>run_id = ''testId'', message = ''testMessage'', status = ''testStatus'',
      createdAt = ''2023-05-24T10:23:40.172Z'',
      confirmedBy = Some \<lparr>name = Some ''testUser''\<rparr>, plan = None\<rparr>"

definition fakeError :: js_error where
  "fakeError = \<lparr>err_name = ''Error'', err_message = ''Some fake error.''\<rparr>"

text \<open>\<open>buildUseRunMock({ runs, error, isLoading, refetch })\<close>.\<close>

definition buildUseRunMock ::
    "run list option \<Rightarrow> js_error option \<Rightarrow> bool \<Rightarrow> callback \<Rightarrow> fetch_state" where
  "buildUseRunMock runs err loading rf =
     \<lparr>data = runs, error = err, isLoading = loading, refetch = rf\<rparr>"

definition testProps :: "bool option \<Rightarrow> props" where
  "testProps h = \<lparr>organization = ''org'', workspaceName = ''ws'', hideDescription = h\<rparr>"

section \<open>What a render returns\<close>

lemma card_run_total:
  "card_run fs =
     Inr (case data fs of None \<Rightarrow> None | Some [] \<Rightarrow> None | Some (r # rs) \<Rightarrow> Some r)"
  by (simp add: card_run_def truthy_def index0_def split: option.split list.split)

lemma render_error:
  "error fs = Some e \<Longrightarrow> TerraformLatestRun fs p = Inr (ResponseErrorPanel e)"
  by (simp add: TerraformLatestRun_def)

lemma render_card:
  "error fs = None \<Longrightarrow> hide p \<Longrightarrow>
   TerraformLatestRun fs p =
     Inr (TerraformLatestRunCard
            (case data fs of None \<Rightarrow> None | Some [] \<Rightarrow> None | Some (r # rs) \<Rightarrow> Some r)
            (workspaceName p))"
  by (simp add: TerraformLatestRun_def card_run_total)

lemma render_full:
  "error fs = None \<Longrightarrow> \<not> hide p \<Longrightarrow>
   TerraformLatestRun fs p =
     Inr (full_view (refetch fs) (workspaceName p)
            (TerraformLatestRunCard
               (case data fs of None \<Rightarrow> None | Some [] \<Rightarrow> None | Some (r # rs) \<Rightarrow> Some r)
               (workspaceName p)))"
  by (simp add: TerraformLatestRun_def card_run_total)

lemma hide_Some_True: "hideDescription p = Some True \<Longrightarrow> hide p"
  by (simp add: hide_def)

lemma not_hide: "hideDescription p \<noteq> Some True \<Longrightarrow> \<not> hide p"
  by (cases "hideDescription p") (auto simp: hide_def)

subsection \<open>The tree of the full view\<close>

lemma elements_full_view:
  "elements (full_view cb w (TerraformLatestRunCard r v)) =
     [full_view cb w (TerraformLatestRunCard r v),
      Grid grid_item
        [Grid grid_row [Grid grid_item [title], Grid grid_item [refresh cb]],
         Grid grid_item [description w]],
      Grid grid_row [Grid grid_item [title], Grid grid_item [refresh cb]],
      Grid grid_item [title], title, Text ''Terraform'',
      Grid grid_item [refresh cb], refresh cb, RefreshIcon,
      Grid grid_item [description w], description w,
      Text ''This contains some useful information around the terraform workspace \"'',
      Text w, Text ''\".'',
      Grid grid_item [TerraformLatestRunCard r v], TerraformLatestRunCard r v]"
  by (simp add: full_view_def title_def refresh_def description_def)

lemma refresh_controls_full_view:
  "refresh_controls (full_view cb w (TerraformLatestRunCard r v)) = [cb]"
  unfolding refresh_controls_def elements_full_view
  by (simp add: List.map_filter_simps full_view_def title_def refresh_def description_def)

lemma cards_full_view:
  "cards (full_view cb w (TerraformLatestRunCard r v)) = [(r, v)]"
  unfolding cards_def elements_full_view
  by (simp add: List.map_filter_simps full_view_def title_def refresh_def description_def)

lemma typographies_full_view:
  "typographies (full_view cb w (TerraformLatestRunCard r v)) = [title, description w]"
  unfolding typographies_def elements_full_view
  by (simp add: full_view_def title_def refresh_def description_def)

lemma shown_full_view:
  "shown cardf panelf (full_view cb w (TerraformLatestRunCard r v)) =
     ''Terraform'' # description_text w # cardf r v"
  by (simp add: full_view_def title_def refresh_def description_def description_text_def)

subsection \<open>The effect and the activations\<close>

lemma commit_effect_invoked:
  "invoked (commit_effect (TerraformLatestRun_effect fs) inst) =
     invoked inst @ (if last_deps inst = Some [ref (refetch fs)] then [] else [ref (refetch fs)])"
  by (simp add: commit_effect_def TerraformLatestRun_effect_def run_effect_def call_def)

lemma commit_effect_last_deps:
  "last_deps (commit_effect (TerraformLatestRun_effect fs) inst) = Some [ref (refetch fs)]"
  by (simp add: commit_effect_def TerraformLatestRun_effect_def run_effect_def call_def)

lemma commit_effect_cleanup:
  "cleanup (commit_effect (TerraformLatestRun_effect fs) inst) =
     (if last_deps inst = Some [ref (refetch fs)] then cleanup inst else JSUndefined)"
  by (simp add: commit_effect_def TerraformLatestRun_effect_def run_effect_def call_def)

lemma render_commits:
  "snd (render fs p inst) = commit_effect (TerraformLatestRun_effect fs) inst"
  by (simp add: render_def TerraformLatestRun_def card_run_total split: option.split)

lemma render_fst: "fst (render fs p inst) = TerraformLatestRun fs p"
  by (simp add: render_def split: sum.split)

lemma renders_invoked:
  "invoked (renders rs inst) =
     invoked inst @ changes (last_deps inst) (map (\<lambda>(fs, p). ref (refetch fs)) rs)"
proof (induction rs arbitrary: inst)
  case Nil
  then show ?case by simp
next
  case (Cons x rs)
  obtain fs p where x: "x = (fs, p)" by (cases x)
  show ?case
  proof (cases "last_deps inst = Some [ref (refetch fs)]")
    case True
    then have "commit_effect (TerraformLatestRun_effect fs) inst = inst"
      by (simp add: commit_effect_def TerraformLatestRun_effect_def)
    then show ?thesis
      using True by (simp add: x Cons.IH render_commits)
  next
    case False
    then show ?thesis
      by (simp add: x Cons.IH render_commits commit_effect_invoked commit_effect_last_deps)
  qed
qed

lemma renders_cleanup:
  "cleanup inst = JSUndefined \<Longrightarrow> cleanup (renders rs inst) = JSUndefined"
proof (induction rs arbitrary: inst)
  case Nil
  then show ?case by simp
next
  case (Cons x rs)
  obtain fs p where x: "x = (fs, p)" by (cases x)
  have "cleanup (snd (render fs p inst)) = JSUndefined"
    using Cons.prems by (simp add: render_commits commit_effect_cleanup)
  then show ?case
    by (simp add: x Cons.IH)
qed

lemma activate_full_view:
  "activate (full_view cb w (TerraformLatestRunCard r v)) inst =
     Some (inst\<lparr>invoked := invoked inst @ [ref cb]\<rparr>)"
  by (simp add: activate_def refresh_controls_full_view call_def)

lemma activations_full_view:
  "activations n (full_view cb w (TerraformLatestRunCard r v)) inst =
     Some (inst\<lparr>invoked := invoked inst @ replicate n (ref cb)\<rparr>)"
proof (induction n arbitrary: inst)
  case 0
  then show ?case by simp
next
  case (Suc n)
  show ?case
    by (simp add: activate_full_view Suc.IH replicate_app_Cons_same)
qed

section \<open>The claims\<close>

text \<open>
  C1. Whenever \<open>error\<close> is set, whatever \<open>data\<close>, \<open>isLoading\<close> and
  \<open>hideDescription\<close> are, the render returns the error panel of that error and
  nothing else: the tree has this one element, so no refresh control, no title and no
  description (no typography at all) and no run-summary card; the screen shows what the
  panel shows for the error.
\<close>

theorem C1_error_only:
  assumes "error fs = Some e"
  shows "\<exists>el. TerraformLatestRun fs p = Inr el \<and>
           el = ResponseErrorPanel e \<and>
           elements el = [el] \<and>
           refresh_controls el = [] \<and>
           typographies el = [] \<and>
           cards el = [] \<and>
           shown cardf panelf el = panelf e"
  using assms
  by (simp add: render_error refresh_controls_def typographies_def cards_def
      List.map_filter_simps)

theorem C1_witness:
  "error (buildUseRunMock (Some [testDataValid]) (Some fakeError) True refetchMock) =
     Some fakeError \<and>
   TerraformLatestRun (buildUseRunMock (Some [testDataValid]) (Some fakeError) True refetchMock)
     (testProps (Some False)) = Inr (ResponseErrorPanel fakeError)"
proof -
  have h: "error (buildUseRunMock (Some [testDataValid]) (Some fakeError) True refetchMock) =
      Some fakeError"
    by (simp add: buildUseRunMock_def)
  show ?thesis
    using h C1_error_only [OF h, of "testProps (Some False)"] by simp
qed

text \<open>
  C2, as the code has it. For \<open>data\<close> empty or absent, not loading and without an
  error, the card gets no run and the screen shows "No runs for W" (the card as the spec
  describes it). The header does not depend on \<open>data\<close>: with \<open>hideDescription\<close>
  not true the title, the description sentence and the refresh control bound to
  \<open>refetch\<close> are rendered as well; they are omitted exactly when \<open>hideDescription\<close>
  is true.
\<close>

theorem C2_empty_data_header:
  assumes "data fs = None \<or> data fs = Some []"
    and "\<not> isLoading fs"
    and "error fs = None"
  shows "\<exists>el. TerraformLatestRun fs p = Inr el \<and>
           cards el = [(None, workspaceName p)] \<and>
           ''No runs for '' @ workspaceName p
             \<in> set (shown (TerraformLatestRunCard_view fmt (isLoading fs)) panelf el) \<and>
           (if hideDescription p = Some True
            then typographies el = [] \<and> refresh_controls el = [] \<and>
              shown (TerraformLatestRunCard_view fmt (isLoading fs)) panelf el =
                [''No runs for '' @ workspaceName p]
            else typographies el =
                [Typography ''h5'' [Text ''Terraform''], description (workspaceName p)] \<and>
              refresh_controls el = [refetch fs] \<and>
              shown (TerraformLatestRunCard_view fmt (isLoading fs)) panelf el =
                [''Terraform'', description_text (workspaceName p),
                 ''No runs for '' @ workspaceName p])"
proof -
  from assms(1) have first:
    "(case data fs of None \<Rightarrow> None | Some [] \<Rightarrow> None | Some (r # rs) \<Rightarrow> Some r) = None"
    by auto
  show ?thesis
  proof (cases "hideDescription p = Some True")
    case True
    then have "hide p"
      by (rule hide_Some_True)
    with assms(2,3) first True show ?thesis
      by (simp add: render_card cards_def typographies_def refresh_controls_def
          List.map_filter_simps TerraformLatestRunCard_view_def)
  next
    case False
    then have "\<not> hide p"
      by (rule not_hide)
    with assms(2,3) first False show ?thesis
      by (simp add: render_full cards_full_view typographies_full_view
          refresh_controls_full_view shown_full_view title_def
          TerraformLatestRunCard_view_def)
  qed
qed

text \<open>The amended statement at an absent \<open>data\<close>, \<open>hideDescription\<close> false.\<close>

theorem C2_witness:
  "(data (buildUseRunMock None None False refetchMock) = None \<or>
    data (buildUseRunMock None None False refetchMock) = Some []) \<and>
   \<not> isLoading (buildUseRunMock None None False refetchMock) \<and>
   error (buildUseRunMock None None False refetchMock) = None \<and>
   (\<exists>el. TerraformLatestRun (buildUseRunMock None None False refetchMock)
            (testProps (Some False)) = Inr el \<and>
      cards el = [(None, ''ws'')] \<and>
      refresh_controls el = [refetchMock] \<and>
      shown (TerraformLatestRunCard_view (\<lambda>t. t) False) (\<lambda>e. []) el =
        [''Terraform'', description_text ''ws'', ''No runs for ws''])"
proof -
  let ?fs = "buildUseRunMock None None False refetchMock"
  have h1: "data ?fs = None \<or> data ?fs = Some []"
    by (simp add: buildUseRunMock_def)
  have h2: "\<not> isLoading ?fs"
    by (simp add: buildUseRunMock_def)
  have h3: "error ?fs = None"
    by (simp add: buildUseRunMock_def)
  show ?thesis
    using h1 h2 h3
      C2_empty_data_header [OF h1 h2 h3, of "testProps (Some False)" "\<lambda>t. t" "\<lambda>e. []"]
    by (auto simp: buildUseRunMock_def testProps_def)
qed

text \<open>
  C2 as it was stated fails at \<open>data = []\<close>, not loading, no error,
  \<open>hideDescription\<close> not given: the render returns the full view, whose tree holds the
  refresh control and the description sentence.
\<close>

theorem C2_counterexample:
  "data (buildUseRunMock (Some []) None False refetchMock) = Some [] \<and>
   \<not> isLoading (buildUseRunMock (Some []) None False refetchMock) \<and>
   error (buildUseRunMock (Some []) None False refetchMock) = None \<and>
   hideDescription (testProps None) \<noteq> Some True \<and>
   TerraformLatestRun (buildUseRunMock (Some []) None False refetchMock) (testProps None) =
     Inr (full_view refetchMock ''ws'' (TerraformLatestRunCard None ''ws'')) \<and>
   refresh_controls (full_view refetchMock ''ws'' (TerraformLatestRunCard None ''ws'')) =
     [refetchMock] \<and>
   description ''ws''
     \<in> set (elements (full_view refetchMock ''ws'' (TerraformLatestRunCard None ''ws''))) \<and>
   description ''ws'' =
     Typography ''body2''
       [Text ''This contains some useful information around the terraform workspace \"'',
        Text ''ws'', Text ''\".'']"
proof -
  have el: "TerraformLatestRun (buildUseRunMock (Some []) None False refetchMock)
      (testProps None) = Inr (full_view refetchMock ''ws'' (TerraformLatestRunCard None ''ws''))"
    by (simp add: TerraformLatestRun_def card_run_total buildUseRunMock_def hide_def
        testProps_def)
  have inputs: "data (buildUseRunMock (Some []) None False refetchMock) = Some [] \<and>
      \<not> isLoading (buildUseRunMock (Some []) None False refetchMock) \<and>
      error (buildUseRunMock (Some []) None False refetchMock) = None \<and>
      hideDescription (testProps None) \<noteq> Some True"
    by (simp add: buildUseRunMock_def testProps_def)
  have there: "description ''ws''
      \<in> set (elements (full_view refetchMock ''ws'' (TerraformLatestRunCard None ''ws'')))"
    by (simp only: elements_full_view) simp
  from inputs el there show ?thesis
    by (simp add: refresh_controls_full_view description_def)
qed

text \<open>
  C3. On every render without an error the tree holds exactly one run-summary card; it
  gets the first element of \<open>data\<close> when \<open>data\<close> is a non-empty array, no run when
  \<open>data\<close> is absent or empty, and the workspace name. The order of \<open>data\<close> is not
  touched: a run is displayed only for a non-empty \<open>data\<close>, and it is \<open>data[0]\<close>.
\<close>

theorem C3_card_gets_first:
  assumes "error fs = None"
  shows "\<exists>el. TerraformLatestRun fs p = Inr el \<and>
           cards el =
             [(case data fs of None \<Rightarrow> None | Some [] \<Rightarrow> None | Some (r # rs) \<Rightarrow> Some r,
               workspaceName p)]"
proof (cases "hide p")
  case True
  with assms show ?thesis
    by (simp add: render_card cards_def List.map_filter_simps)
next
  case False
  with assms show ?thesis
    by (simp add: render_full cards_full_view)
qed

theorem C3_witness:
  "error (buildUseRunMock (Some [testDataValid, testDataUndefinedName]) None False refetchMock) =
     None \<and>
   (\<exists>el. TerraformLatestRun
            (buildUseRunMock (Some [testDataValid, testDataUndefinedName]) None False refetchMock)
            (testProps None) = Inr el \<and>
      cards el = [(Some testDataValid, ''ws'')])"
proof -
  have h: "error (buildUseRunMock (Some [testDataValid, testDataUndefinedName]) None False
      refetchMock) = None"
    by (simp add: buildUseRunMock_def)
  show ?thesis
    using h C3_card_gets_first [OF h, of "testProps None"]
    by (simp add: buildUseRunMock_def testProps_def)
qed

text \<open>
  C4. The effect calls \<open>refetch\<close> once on the mount; a later render calls it once
  when the \<open>refetch\<close> reference differs from the one of the last run of the effect,
  and not at all when it is the same. Over any sequence of renders from the mount the
  calls are those of the spec's words (\<open>changes\<close>). What \<open>refetch\<close> returns is
  dropped: React gets \<open>undefined\<close> from the effect, and the state after a render is
  the same whatever \<open>refetch\<close> returns.
\<close>

theorem C4_refetch_on_mount_and_change:
  "invoked (snd (render fs p unmounted)) = [ref (refetch fs)] \<and>
   invoked (snd (render fs p inst)) =
     invoked inst @
       (if last_deps inst = Some [ref (refetch fs)] then [] else [ref (refetch fs)]) \<and>
   last_deps (snd (render fs p inst)) = Some [ref (refetch fs)] \<and>
   invoked (renders rs unmounted) = changes None (map (\<lambda>(fs, p). ref (refetch fs)) rs) \<and>
   cleanup (renders rs unmounted) = JSUndefined \<and>
   snd (render (fs\<lparr>refetch := (refetch fs)\<lparr>returns := v\<rparr>\<rparr>) p inst) = snd (render fs p inst)"
proof -
  have mount: "invoked (snd (render fs p unmounted)) = [ref (refetch fs)]"
    by (simp add: render_commits commit_effect_invoked unmounted_def)
  have step: "invoked (snd (render fs p inst)) =
     invoked inst @
       (if last_deps inst = Some [ref (refetch fs)] then [] else [ref (refetch fs)])"
    by (simp only: render_commits commit_effect_invoked)
  have dep: "last_deps (snd (render fs p inst)) = Some [ref (refetch fs)]"
    by (simp only: render_commits commit_effect_last_deps)
  have trace: "invoked (renders rs unmounted) =
      changes None (map (\<lambda>(fs, p). ref (refetch fs)) rs)"
    by (simp add: renders_invoked unmounted_def)
  have clean: "cleanup (renders rs unmounted) = JSUndefined"
    by (rule renders_cleanup) (simp add: unmounted_def)
  have drop: "snd (render (fs\<lparr>refetch := (refetch fs)\<lparr>returns := v\<rparr>\<rparr>) p inst) =
      snd (render fs p inst)"
    by (simp add: render_commits commit_effect_def TerraformLatestRun_effect_def
        run_effect_def call_def)
  from mount step dep trace clean drop show ?thesis
    by (intro conjI)
qed

text \<open>
  Four renders: loading, then data, then a new \<open>refetch\<close> reference, then the same
  reference again. \<open>refetch\<close> is called at the first and at the third.
\<close>

theorem C4_witness:
  "invoked (renders
      [(buildUseRunMock None None True refetchMock, testProps None),
       (buildUseRunMock (Some [testDataValid]) None False refetchMock, testProps None),
       (buildUseRunMock (Some [testDataValid]) None False otherRefetch, testProps None),
       (buildUseRunMock (Some []) None False otherRefetch, testProps None)]
      unmounted) = [0, 1]"
  using C4_refetch_on_mount_and_change
    [of "buildUseRunMock None None True refetchMock" "testProps None" unmounted
      "[(buildUseRunMock None None True refetchMock, testProps None),
       (buildUseRunMock (Some [testDataValid]) None False refetchMock, testProps None),
       (buildUseRunMock (Some [testDataValid]) None False otherRefetch, testProps None),
       (buildUseRunMock (Some []) None False otherRefetch, testProps None)]" JSUndefined]
  by (simp add: buildUseRunMock_def refetchMock_def otherRefetch_def)

text \<open>
  C5. Where the refresh control is rendered (no error, \<open>hideDescription\<close> not true),
  n activations of it call the injected \<open>refetch\<close> n times, one call each, from any
  state of the log. Counted from the mount, whose effect has called \<open>refetch\<close> once,
  the log then holds n + 1 calls.
\<close>

theorem C5_activations:
  assumes "error fs = None" and "hideDescription p \<noteq> Some True"
  shows "\<exists>el. TerraformLatestRun fs p = Inr el \<and>
           activations n el inst =
             Some (inst\<lparr>invoked := invoked inst @ replicate n (ref (refetch fs))\<rparr>) \<and>
           (\<exists>inst'. activations n el (snd (render fs p unmounted)) = Some inst' \<and>
              invoked inst' = ref (refetch fs) # replicate n (ref (refetch fs)))"
proof -
  from assms have "\<not> hide p"
    by (simp add: not_hide)
  with assms(1) show ?thesis
    by (simp add: render_full activations_full_view render_commits commit_effect_invoked
        unmounted_def)
qed

theorem C5_witness:
  "error (buildUseRunMock (Some [testDataValid]) None False refetchMock) = None \<and>
   hideDescription (testProps None) \<noteq> Some True \<and>
   (\<exists>el. TerraformLatestRun (buildUseRunMock (Some [testDataValid]) None False refetchMock)
            (testProps None) = Inr el \<and>
      activations 2 el \<lparr>last_deps = Some [0], cleanup = JSUndefined, invoked = []\<rparr> =
        Some \<lparr>last_deps = Some [0], cleanup = JSUndefined, invoked = [0, 0]\<rparr>)"
proof -
  have h1: "error (buildUseRunMock (Some [testDataValid]) None False refetchMock) = None"
    by (simp add: buildUseRunMock_def)
  have h2: "hideDescription (testProps None) \<noteq> Some True"
    by (simp add: testProps_def)
  have two: "replicate 2 x = [x, x]" for x :: nat
    by (simp add: numeral_2_eq_2)
  show ?thesis
    using h1 h2 C5_activations [OF h1 h2, of 2
        "\<lparr>last_deps = Some [0], cleanup = JSUndefined, invoked = []\<rparr>"]
    by (auto simp: buildUseRunMock_def refetchMock_def two)
qed

text \<open>
  C6. Without an error and with \<open>hideDescription\<close> true, the render returns the
  run-summary card alone: the tree has this one element, so no title, no description
  and no refresh control, and the screen shows what the card shows.
\<close>

theorem C6_card_only:
  assumes "error fs = None" and "hideDescription p = Some True"
  shows "\<exists>el. TerraformLatestRun fs p = Inr el \<and>
           el = TerraformLatestRunCard
                  (case data fs of None \<Rightarrow> None | Some [] \<Rightarrow> None | Some (r # rs) \<Rightarrow> Some r)
                  (workspaceName p) \<and>
           elements el = [el] \<and>
           typographies el = [] \<and>
           refresh_controls el = [] \<and>
           shown cardf panelf el =
             cardf (case data fs of None \<Rightarrow> None | Some [] \<Rightarrow> None | Some (r # rs) \<Rightarrow> Some r)
               (workspaceName p)"
  using assms
  by (simp add: render_card hide_Some_True typographies_def refresh_controls_def
      List.map_filter_simps)

theorem C6_witness:
  "error (buildUseRunMock (Some [testDataValid]) None False refetchMock) = None \<and>
   hideDescription (testProps (Some True)) = Some True \<and>
   TerraformLatestRun (buildUseRunMock (Some [testDataValid]) None False refetchMock)
     (testProps (Some True)) = Inr (TerraformLatestRunCard (Some testDataValid) ''ws'')"
proof -
  have h1: "error (buildUseRunMock (Some [testDataValid]) None False refetchMock) = None"
    by (simp add: buildUseRunMock_def)
  have h2: "hideDescription (testProps (Some True)) = Some True"
    by (simp add: testProps_def)
  show ?thesis
    using h1 h2 C6_card_only [OF h1 h2]
    by (simp add: buildUseRunMock_def testProps_def)
qed

text \<open>
  C7. Without an error and with \<open>hideDescription\<close> not true, whatever \<open>data\<close> and
  \<open>isLoading\<close> are, the render returns the full view: the title "Terraform", one
  refresh control whose handler is the injected \<open>refetch\<close>, the description sentence
  with the workspace name in it, and the run-summary card.
\<close>

theorem C7_full_view:
  assumes "error fs = None" and "hideDescription p \<noteq> Some True"
  shows "\<exists>el r. TerraformLatestRun fs p = Inr el \<and>
           el = full_view (refetch fs) (workspaceName p)
                  (TerraformLatestRunCard r (workspaceName p)) \<and>
           typographies el =
             [Typography ''h5'' [Text ''Terraform''], description (workspaceName p)] \<and>
           refresh_controls el = [refetch fs] \<and>
           cards el = [(r, workspaceName p)] \<and>
           shown cardf panelf el =
             ''Terraform'' # description_text (workspaceName p) # cardf r (workspaceName p)"
proof -
  from assms have "\<not> hide p"
    by (simp add: not_hide)
  with assms(1) show ?thesis
    by (simp add: render_full typographies_full_view refresh_controls_full_view
        cards_full_view shown_full_view title_def)
qed

theorem C7_witness:
  "error (buildUseRunMock None None True refetchMock) = None \<and>
   hideDescription (testProps (Some False)) \<noteq> Some True \<and>
   (\<exists>el. TerraformLatestRun (buildUseRunMock None None True refetchMock)
            (testProps (Some False)) = Inr el \<and>
      refresh_controls el = [refetchMock] \<and>
      typographies el = [Typography ''h5'' [Text ''Terraform''], description ''ws''])"
proof -
  have h1: "error (buildUseRunMock None None True refetchMock) = None"
    by (simp add: buildUseRunMock_def)
  have h2: "hideDescription (testProps (Some False)) \<noteq> Some True"
    by (simp add: testProps_def)
  show ?thesis
    using h1 h2 C7_full_view [OF h1 h2]
    by (auto simp: buildUseRunMock_def testProps_def)
qed

text \<open>
  C8. For \<open>data = [run]\<close> whose confirming user, or the name of it, is absent, without
  an error and not loading, the screen shows "Latest run for W", the label "User" and
  "Unknown", with the card as the spec describes it.
\<close>

theorem C8_unknown_user:
  assumes "data fs = Some [r]"
    and "confirmedBy r = None \<or> (\<exists>u. confirmedBy r = Some u \<and> name u = None)"
    and "error fs = None"
    and "\<not> isLoading fs"
  shows "\<exists>el. TerraformLatestRun fs p = Inr el \<and>
           ''Latest run for '' @ workspaceName p
             \<in> set (shown (TerraformLatestRunCard_view fmt (isLoading fs)) panelf el) \<and>
           ''User'' \<in> set (shown (TerraformLatestRunCard_view fmt (isLoading fs)) panelf el) \<and>
           ''Unknown'' \<in> set (shown (TerraformLatestRunCard_view fmt (isLoading fs)) panelf el)"
proof -
  from assms(2) have unknown: "user_name r = ''Unknown''"
    by (auto simp: user_name_def)
  show ?thesis
  proof (cases "hide p")
    case True
    with assms(1,3,4) unknown show ?thesis
      by (simp add: render_card TerraformLatestRunCard_view_def)
  next
    case False
    with assms(1,3,4) unknown show ?thesis
      by (simp add: render_full shown_full_view TerraformLatestRunCard_view_def)
  qed
qed

theorem C8_witness:
  "''Latest run for ws''
      \<in> set (shown (TerraformLatestRunCard_view (\<lambda>t. t) False) (\<lambda>e. [])
           (full_view refetchMock ''ws''
              (TerraformLatestRunCard (Some testDataUndefinedName) ''ws''))) \<and>
   ''User''
      \<in> set (shown (TerraformLatestRunCard_view (\<lambda>t. t) False) (\<lambda>e. [])
           (full_view refetchMock ''ws''
              (TerraformLatestRunCard (Some testDataUndefinedName) ''ws''))) \<and>
   ''Unknown''
      \<in> set (shown (TerraformLatestRunCard_view (\<lambda>t. t) False) (\<lambda>e. [])
           (full_view refetchMock ''ws''
              (TerraformLatestRunCard (Some testDataUndefinedName) ''ws'')))"
proof -
  let ?fs = "buildUseRunMock (Some [testDataUndefinedName]) None False refetchMock"
  have h1: "data ?fs = Some [testDataUndefinedName]"
    by (simp add: buildUseRunMock_def)
  have h2: "confirmedBy testDataUndefinedName = None \<or>
      (\<exists>u. confirmedBy testDataUndefinedName = Some u \<and> name u = None)"
    by (simp add: testDataUndefinedName_def)
  have h3: "error ?fs = None"
    by (simp add: buildUseRunMock_def)
  have h4: "\<not> isLoading ?fs"
    by (simp add: buildUseRunMock_def)
  have el: "TerraformLatestRun ?fs (testProps None) =
      Inr (full_view refetchMock ''ws''
             (TerraformLatestRunCard (Some testDataUndefinedName) ''ws''))"
    by (simp add: TerraformLatestRun_def card_run_total buildUseRunMock_def hide_def
        testProps_def)
  show ?thesis
    using C8_unknown_user [OF h1 h2 h3 h4, of "testProps None" "\<lambda>t. t" "\<lambda>e. []"] el
    by (simp add: buildUseRunMock_def testProps_def)
qed

text \<open>
  C9. Rendering never throws: for every fetch state and all props the render returns an
  element. The one read that could throw, \<open>data[0]\<close> on an absent \<open>data\<close>, is
  guarded by \<open>data ?\<close>.
\<close>

theorem C9_render_total: "\<exists>el. TerraformLatestRun fs p = Inr el"
  by (simp add: TerraformLatestRun_def card_run_total split: option.split)

text \<open>
  C10. The effect does not depend on the view: with \<open>error\<close> set the render returns
  the error panel alone, and still \<open>refetch\<close> is called once on the mount, and on a
  later render exactly when its reference has changed. Over a mount and any further
  renders that all show the error panel, the calls are those of the spec's words.
\<close>

theorem C10_refetch_despite_error:
  assumes "error fs = Some e" and "list_all (\<lambda>(fs', p'). error fs' \<noteq> None) rs"
  shows "render fs p unmounted =
           (Inr (ResponseErrorPanel e),
            \<lparr>last_deps = Some [ref (refetch fs)], cleanup = JSUndefined,
             invoked = [ref (refetch fs)]\<rparr>) \<and>
         fst (render fs p inst) = Inr (ResponseErrorPanel e) \<and>
         invoked (snd (render fs p inst)) =
           invoked inst @
             (if last_deps inst = Some [ref (refetch fs)] then [] else [ref (refetch fs)]) \<and>
         list_all (\<lambda>(fs', p'). \<exists>e'. TerraformLatestRun fs' p' = Inr (ResponseErrorPanel e')) rs \<and>
         invoked (renders ((fs, p) # rs) unmounted) =
           changes None (map (\<lambda>(fs', p'). ref (refetch fs')) ((fs, p) # rs))"
proof -
  have el: "TerraformLatestRun fs p = Inr (ResponseErrorPanel e)"
    using assms(1) by (rule render_error)
  have mount: "render fs p unmounted =
           (Inr (ResponseErrorPanel e),
            \<lparr>last_deps = Some [ref (refetch fs)], cleanup = JSUndefined,
             invoked = [ref (refetch fs)]\<rparr>)"
    by (simp add: render_def el commit_effect_def TerraformLatestRun_effect_def
        run_effect_def call_def unmounted_def)
  have panel: "fst (render fs p inst) = Inr (ResponseErrorPanel e)"
    by (simp add: render_fst el)
  have step: "invoked (snd (render fs p inst)) =
           invoked inst @
             (if last_deps inst = Some [ref (refetch fs)] then [] else [ref (refetch fs)])"
    by (simp only: render_commits commit_effect_invoked)
  have panels:
    "list_all (\<lambda>(fs', p'). \<exists>e'. TerraformLatestRun fs' p' = Inr (ResponseErrorPanel e')) rs"
    using assms(2) by (induction rs) (auto simp: render_error)
  have trace: "invoked (renders ((fs, p) # rs) unmounted) =
           changes None (map (\<lambda>(fs', p'). ref (refetch fs')) ((fs, p) # rs))"
    by (simp only: renders_invoked) (simp add: unmounted_def)
  from mount panel step panels trace show ?thesis
    by (intro conjI)
qed

theorem C10_witness:
  "error (buildUseRunMock None (Some fakeError) False refetchMock) = Some fakeError \<and>
   fst (render (buildUseRunMock None (Some fakeError) False refetchMock) (testProps None)
          unmounted) = Inr (ResponseErrorPanel fakeError) \<and>
   invoked (renders
     [(buildUseRunMock None (Some fakeError) False refetchMock, testProps None),
      (buildUseRunMock None (Some fakeError) True refetchMock, testProps None),
      (buildUseRunMock (Some []) (Some fakeError) False otherRefetch, testProps None)]
     unmounted) = [0, 1]"
proof -
  let ?fs = "buildUseRunMock None (Some fakeError) False refetchMock"
  let ?rs = "[(buildUseRunMock None (Some fakeError) True refetchMock, testProps None),
      (buildUseRunMock (Some []) (Some fakeError) False otherRefetch, testProps None)]"
  have h1: "error ?fs = Some fakeError"
    by (simp add: buildUseRunMock_def)
  have h2: "list_all (\<lambda>(fs', p'). error fs' \<noteq> None) ?rs"
    by (simp add: buildUseRunMock_def)
  note c = C10_refetch_despite_error [OF h1 h2, of "testProps None" unmounted]
  have panel: "fst (render ?fs (testProps None) unmounted) = Inr (ResponseErrorPanel fakeError)"
    using c by (elim conjE)
  have trace: "invoked (renders ((?fs, testProps None) # ?rs) unmounted) =
      changes None (map (\<lambda>(fs', p'). ref (refetch fs')) ((?fs, testProps None) # ?rs))"
    using c by (elim conjE)
  have "changes None (map (\<lambda>(fs', p'). ref (refetch fs')) ((?fs, testProps None) # ?rs)) =
      [0, 1]"
    by (simp add: buildUseRunMock_def refetchMock_def otherRefetch_def)
  with trace have "invoked (renders ((?fs, testProps None) # ?rs) unmounted) = [0, 1]"
    by (simp only:)
  with h1 panel show ?thesis
    by (intro conjI)
qed

end
